theory Spec2Isabelle
  imports Complex_Main "HOL-Library.Word"
begin

unbundle bit_operations_syntax

section \<open>Library functions used by \<open>api/index.py\<close>\<close>

text \<open>
  The program is a Flask application with two operations, \<open>api_create\<close> and
  \<open>api_verify\<close>, over a process-wide dictionary \<open>challenges\<close>. It calls a handful of
  functions of the Python standard library: \<open>str.encode\<close>, \<open>hmac.new(...).hexdigest\<close>,
  \<open>hmac.compare_digest\<close>, \<open>base64.b64encode\<close>, \<open>int\<close> and the formatting of an f-string.
  They are defined here from their documentation, on these representations:
  \<^item> a Python \<open>bytes\<close> value is a list of 8-bit words;
  \<^item> a Python \<open>str\<close> is a \<open>string\<close>, each \<open>char\<close> read as the code point of that
    number, so the strings of the model are the Python strings whose code points are
    below 256;
  \<^item> a Python \<open>int\<close> is an \<open>int\<close>.
\<close>

type_synonym byte = "8 word"
type_synonym bytes = "byte list"

subsection \<open>\<open>str.encode()\<close>: UTF-8\<close>

definition encode_char :: "char \<Rightarrow> bytes" where
  "encode_char c =
     (let n = (of_char c :: nat)
      in if n < 128 then [of_nat n]
         else [of_nat (192 + n div 64), of_nat (128 + n mod 64)])"

definition encode :: "string \<Rightarrow> bytes" where
  "encode s = concat (map encode_char s)"

subsection \<open>\<open>hashlib.sha256\<close>\<close>

definition sha256_k :: "32 word list" where
  "sha256_k =
    [1116352408, 1899447441, 3049323471, 3921009573, 961987163, 1508970993, 2453635748,
     2870763221, 3624381080, 310598401, 607225278, 1426881987, 1925078388, 2162078206,
     2614888103, 3248222580, 3835390401, 4022224774, 264347078, 604807628, 770255983,
     1249150122, 1555081692, 1996064986, 2554220882, 2821834349, 2952996808, 3210313671,
     3336571891, 3584528711, 113926993, 338241895, 666307205, 773529912, 1294757372,
     1396182291, 1695183700, 1986661051, 2177026350, 2456956037, 2730485921, 2820302411,
     3259730800, 3345764771, 3516065817, 3600352804, 4094571909, 275423344, 430227734,
     506948616, 659060556, 883997877, 958139571, 1322822218, 1537002063, 1747873779,
     1955562222, 2024104815, 2227730452, 2361852424, 2428436474, 2756734187, 3204031479,
     3329325298]"

definition sha256_init :: "32 word list" where
  "sha256_init =
    [1779033703, 3144134277, 1013904242, 2773480762, 1359893119, 2600822924, 528734635,
     1541459225]"

definition be32 :: "bytes \<Rightarrow> 32 word" where
  "be32 bs = foldl (\<lambda>acc b. push_bit 8 acc OR ucast b) 0 (take 4 bs)"

definition be_bytes :: "nat \<Rightarrow> nat \<Rightarrow> bytes" where
  "be_bytes k n = map (\<lambda>i. of_nat (n div 256 ^ i)) (rev [0..<k])"

definition sha256_pad :: "bytes \<Rightarrow> bytes" where
  "sha256_pad m =
     m @ [128] @ replicate ((119 - length m mod 64) mod 64) 0 @ be_bytes 8 (8 * length m)"

function chunks :: "nat \<Rightarrow> 'a list \<Rightarrow> 'a list list" where
  "chunks n xs = (if n = 0 \<or> xs = [] then [] else take n xs # chunks n (drop n xs))"
  by pat_completeness auto
termination
  by (relation "measure (\<lambda>(n, xs). length xs)") auto

definition ssig0 :: "32 word \<Rightarrow> 32 word" where
  "ssig0 x = word_rotr 7 x XOR word_rotr 18 x XOR drop_bit 3 x"

definition ssig1 :: "32 word \<Rightarrow> 32 word" where
  "ssig1 x = word_rotr 17 x XOR word_rotr 19 x XOR drop_bit 10 x"

definition bsig0 :: "32 word \<Rightarrow> 32 word" where
  "bsig0 x = word_rotr 2 x XOR word_rotr 13 x XOR word_rotr 22 x"

definition bsig1 :: "32 word \<Rightarrow> 32 word" where
  "bsig1 x = word_rotr 6 x XOR word_rotr 11 x XOR word_rotr 25 x"

fun schedule :: "nat \<Rightarrow> 32 word list \<Rightarrow> 32 word list" where
  "schedule 0 w = w"
| "schedule (Suc k) w =
     (let t = length w
      in schedule k
           (w @ [ssig1 (w ! (t - 2)) + w ! (t - 7) + ssig0 (w ! (t - 15)) + w ! (t - 16)]))"

fun sha256_round :: "32 word list \<Rightarrow> 32 word \<times> 32 word \<Rightarrow> 32 word list" where
  "sha256_round [a, b, c, d, e, f, g, h] (k, w) =
     (let t1 = h + bsig1 e + ((e AND f) XOR (NOT e AND g)) + k + w;
          t2 = bsig0 a + ((a AND b) XOR (a AND c) XOR (b AND c))
      in [t1 + t2, a, b, c, d + t1, e, f, g])"
| "sha256_round s _ = s"

definition sha256_block :: "32 word list \<Rightarrow> bytes \<Rightarrow> 32 word list" where
  "sha256_block hs blk =
     (let w = schedule 48 (map be32 (chunks 4 blk))
      in map2 (+) hs (foldl sha256_round hs (zip sha256_k w)))"

definition sha256 :: "bytes \<Rightarrow> bytes" where
  "sha256 m =
     concat (map (\<lambda>h. be_bytes 4 (unat h))
       (foldl sha256_block sha256_init (chunks 64 (sha256_pad m))))"

subsection \<open>\<open>hmac.new(key, msg, hashlib.sha256).hexdigest()\<close>\<close>

definition hmac_sha256 :: "bytes \<Rightarrow> bytes \<Rightarrow> bytes" where
  "hmac_sha256 key msg =
     (let k0 = (if length key > 64 then sha256 key else key);
          k = k0 @ replicate (64 - length k0) 0
      in sha256 (map (\<lambda>b. b XOR 92) k @ sha256 (map (\<lambda>b. b XOR 54) k @ msg)))"

definition hexdigits :: string where
  "hexdigits = ''0123456789abcdef''"

definition hex :: "bytes \<Rightarrow> string" where
  "hex bs = concat (map (\<lambda>b. [hexdigits ! (unat b div 16), hexdigits ! (unat b mod 16)]) bs)"

definition hexdigest :: "bytes \<Rightarrow> bytes \<Rightarrow> string" where
  "hexdigest key msg = hex (hmac_sha256 key msg)"

subsection \<open>\<open>base64.b64encode(...).decode()\<close>\<close>

definition b64chars :: string where
  "b64chars = ''ABCDEFGHIJKLMNOPQRSTUVWXYZabcdefghijklmnopqrstuvwxyz0123456789+/''"

fun b64encode :: "bytes \<Rightarrow> string" where
  "b64encode [] = []"
| "b64encode [a] =
     [b64chars ! (unat a div 4), b64chars ! (unat a mod 4 * 16), CHR ''='', CHR ''='']"
| "b64encode [a, b] =
     [b64chars ! (unat a div 4), b64chars ! (unat a mod 4 * 16 + unat b div 16),
      b64chars ! (unat b mod 16 * 4), CHR ''='']"
| "b64encode (a # b # c # r) =
     [b64chars ! (unat a div 4), b64chars ! (unat a mod 4 * 16 + unat b div 16),
      b64chars ! (unat b mod 16 * 4 + unat c div 64), b64chars ! (unat c mod 64)]
     @ b64encode r"

subsection \<open>Formatting an \<open>int\<close> in an f-string\<close>

function str_nat :: "nat \<Rightarrow> string" where
  "str_nat n =
     (if n < 10 then [''0123456789'' ! n] else str_nat (n div 10) @ [''0123456789'' ! (n mod 10)])"
  by pat_completeness auto
termination
  by (relation "measure id") auto

definition str_int :: "int \<Rightarrow> string" where
  "str_int i = (if i < 0 then CHR ''-'' # str_nat (nat (- i)) else str_nat (nat i))"

section \<open>JSON values and the Python operations on them\<close>

text \<open>
  \<open>request.get_json\<close> turns the request body into Python values: \<open>None\<close>, \<open>bool\<close>,
  \<open>int\<close>, \<open>float\<close>, \<open>str\<close>, \<open>list\<close> and \<open>dict\<close>. A \<open>float\<close> is kept as the rational
  number it denotes, or as one of the three special values that \<open>json.loads\<close> accepts; the
  program only tests floats for zero and truncates them. A \<open>dict\<close> is an association
  list in which the first binding of a key is the dict's binding.
\<close>

datatype pyfloat = Finite rat | PosInf | NegInf | NaN

datatype json =
    JNull
  | JBool bool
  | JInt int
  | JFloat pyfloat
  | JStr string
  | JList "json list"
  | JObj "(string \<times> json) list"

datatype pyexc = TypeError | ValueError | OverflowError | KeyError | IndexError | AttributeError

text \<open>\<open>d.get(k, default)\<close>\<close>

definition dict_get :: "(string \<times> json) list \<Rightarrow> string \<Rightarrow> json \<Rightarrow> json" where
  "dict_get d k dflt = (case map_of d k of None \<Rightarrow> dflt | Some v \<Rightarrow> v)"

text \<open>Truth value testing, as \<open>and\<close> and \<open>not\<close> apply it.\<close>

fun truthy :: "json \<Rightarrow> bool" where
  "truthy JNull = False"
| "truthy (JBool b) = b"
| "truthy (JInt n) = (n \<noteq> 0)"
| "truthy (JFloat (Finite r)) = (r \<noteq> 0)"
| "truthy (JFloat _) = True"
| "truthy (JStr s) = (s \<noteq> [])"
| "truthy (JList l) = (l \<noteq> [])"
| "truthy (JObj d) = (d \<noteq> [])"

text \<open>
  \<open>int(s)\<close> for a string: surrounding whitespace is dropped, then an optional sign, then
  decimal digits, single underscores allowed between digits. Among the code points below
  256 the whitespace characters are 9 to 13, 32, 133 and 160, and the decimal digits are
  \<open>0\<close> to \<open>9\<close>. CPython from 3.11 on raises \<open>ValueError\<close> beyond 4300 digits and earlier
  versions do not; the model gives no result (\<open>None\<close>) there.
\<close>

definition is_space :: "char \<Rightarrow> bool" where
  "is_space c = ((of_char c :: nat) \<in> {9, 10, 11, 12, 13, 32, 133, 160})"

definition is_digit :: "char \<Rightarrow> bool" where
  "is_digit c = (48 \<le> (of_char c :: nat) \<and> (of_char c :: nat) \<le> 57)"

definition strip :: "string \<Rightarrow> string" where
  "strip s = rev (dropWhile is_space (rev (dropWhile is_space s)))"

fun digits_ok :: "string \<Rightarrow> bool" where
  "digits_ok [] = False"
| "digits_ok [c] = is_digit c"
| "digits_ok (c # d # r) =
     (is_digit c \<and> (if d = CHR ''_'' then digits_ok r else digits_ok (d # r)))"

definition digits_value :: "string \<Rightarrow> int" where
  "digits_value s = foldl (\<lambda>acc c. 10 * acc + (int (of_char c) - 48)) 0 (filter is_digit s)"

definition int_of_digits :: "string \<Rightarrow> (pyexc + int) option" where
  "int_of_digits s =
     (if \<not> digits_ok s then Some (Inl ValueError)
      else if length (filter is_digit s) > 4300 then None
      else Some (Inr (digits_value s)))"

definition int_of_str :: "string \<Rightarrow> (pyexc + int) option" where
  "int_of_str s =
     (case strip s of
        [] \<Rightarrow> Some (Inl ValueError)
      | c # r \<Rightarrow>
          if c = CHR ''-'' then map_option (map_sum id uminus) (int_of_digits r)
          else if c = CHR ''+'' then int_of_digits r
          else int_of_digits (c # r))"

text \<open>\<open>int(v)\<close>: \<open>Inl\<close> is the exception raised, \<open>None\<close> is outside the model.\<close>

fun py_int :: "json \<Rightarrow> (pyexc + int) option" where
  "py_int JNull = Some (Inl TypeError)"
| "py_int (JBool b) = Some (Inr (if b then 1 else 0))"
| "py_int (JInt n) = Some (Inr n)"
| "py_int (JFloat (Finite r)) = Some (Inr (if 0 \<le> r then \<lfloor>r\<rfloor> else \<lceil>r\<rceil>))"
| "py_int (JFloat NaN) = Some (Inl ValueError)"
| "py_int (JFloat _) = Some (Inl OverflowError)"
| "py_int (JStr s) = int_of_str s"
| "py_int (JList _) = Some (Inl TypeError)"
| "py_int (JObj _) = Some (Inl TypeError)"

text \<open>
  \<open>f"{v}"\<close>, that is \<open>str(v)\<close>. The \<open>repr\<close> of a float and of the strings and floats
  inside a list or dict is not modelled: \<open>None\<close> is outside the model.
\<close>

fun py_str :: "json \<Rightarrow> string option" where
  "py_str JNull = Some ''None''"
| "py_str (JBool b) = Some (if b then ''True'' else ''False'')"
| "py_str (JInt n) = Some (str_int n)"
| "py_str (JStr s) = Some s"
| "py_str _ = None"

text \<open>
  \<open>hmac.compare_digest(a, b)\<close> with \<open>a\<close> a \<open>str\<close>: both must be \<open>str\<close> of ASCII characters
  only, else it raises \<open>TypeError\<close>.
\<close>

definition is_ascii :: "string \<Rightarrow> bool" where
  "is_ascii s = (\<forall>c \<in> set s. (of_char c :: nat) < 128)"

fun compare_digest :: "string \<Rightarrow> json \<Rightarrow> pyexc + bool" where
  "compare_digest a (JStr b) = (if is_ascii a \<and> is_ascii b then Inr (a = b) else Inl TypeError)"
| "compare_digest a _ = Inl TypeError"

text \<open>
  \<open>int(p['t']) if isinstance(p, dict) else int(p[0])\<close>, with the key and the index as
  arguments: a dict is looked up (\<open>KeyError\<close>), a list or a string is indexed
  (\<open>IndexError\<close>), anything else is not subscriptable (\<open>TypeError\<close>).
\<close>

fun subscript :: "json \<Rightarrow> string \<Rightarrow> nat \<Rightarrow> pyexc + json" where
  "subscript (JObj d) k i = (case map_of d k of None \<Rightarrow> Inl KeyError | Some v \<Rightarrow> Inr v)"
| "subscript (JList l) k i = (if i < length l then Inr (l ! i) else Inl IndexError)"
| "subscript (JStr s) k i = (if i < length s then Inr (JStr [s ! i]) else Inl IndexError)"
| "subscript _ k i = Inl TypeError"

definition point_int :: "string \<Rightarrow> nat \<Rightarrow> json \<Rightarrow> (pyexc + int) option" where
  "point_int k i p = (case subscript p k i of Inl e \<Rightarrow> Some (Inl e) | Inr v \<Rightarrow> py_int v)"

text \<open>The list comprehension \<open>[f(p) for p in points]\<close>: it stops at the first exception.\<close>

fun comprehension :: "(json \<Rightarrow> (pyexc + int) option) \<Rightarrow> json list \<Rightarrow> (pyexc + int list) option" where
  "comprehension f [] = Some (Inr [])"
| "comprehension f (p # ps) =
     (case f p of
        None \<Rightarrow> None
      | Some (Inl e) \<Rightarrow> Some (Inl e)
      | Some (Inr v) \<Rightarrow>
          (case comprehension f ps of
             None \<Rightarrow> None
           | Some (Inl e) \<Rightarrow> Some (Inl e)
           | Some (Inr vs) \<Rightarrow> Some (Inr (v # vs))))"

section \<open>The program\<close>

subsection \<open>Configuration and the store\<close>

definition SECRET_KEY :: bytes where
  "SECRET_KEY = encode ''replace_this_with_a_real_secret''"

record challenge_meta =
  created :: int
  min_drag :: int
  secret :: string

type_synonym store = "string \<rightharpoonup> challenge_meta"

text \<open>
  \<open>challenges.get(k)\<close> and \<open>challenges.pop(k, None)\<close> for a key that comes from the request.
  The keys of the store are strings, which no other value equals; a list or a dict is not
  hashable (\<open>TypeError\<close>).
\<close>

fun store_get :: "store \<Rightarrow> json \<Rightarrow> pyexc + challenge_meta option" where
  "store_get challenges (JStr k) = Inr (challenges k)"
| "store_get challenges (JList _) = Inl TypeError"
| "store_get challenges (JObj _) = Inl TypeError"
| "store_get challenges _ = Inr None"

fun store_pop :: "store \<Rightarrow> json \<Rightarrow> pyexc + store" where
  "store_pop challenges (JStr k) = Inr (challenges(k := None))"
| "store_pop challenges (JList _) = Inl TypeError"
| "store_pop challenges (JObj _) = Inl TypeError"
| "store_pop challenges _ = Inr challenges"

subsection \<open>Helpers\<close>

definition sign_challenge :: "string \<Rightarrow> int \<Rightarrow> string" where
  "sign_challenge challenge_id ts =
     (let msg = encode (challenge_id @ ''|'' @ str_int ts)
      in hexdigest SECRET_KEY msg)"

definition verify_signature :: "string \<Rightarrow> int \<Rightarrow> json \<Rightarrow> pyexc + bool" where
  "verify_signature challenge_id ts signature =
     (let expected = sign_challenge challenge_id ts
      in compare_digest expected signature)"

subsection \<open>\<open>api_create\<close>\<close>

text \<open>
  The random and clock inputs are arguments: \<open>cid\<close> is \<open>str(uuid.uuid4())\<close>, \<open>ts\<close> is
  \<open>int(time.time())\<close> and \<open>rnd\<close> is \<open>uuid.uuid4().bytes\<close>. The result is the new store and
  the JSON object handed to \<open>jsonify\<close>.
\<close>

definition api_create :: "store \<Rightarrow> string \<Rightarrow> int \<Rightarrow> bytes \<Rightarrow> store \<times> json" where
  "api_create challenges cid ts rnd =
     (let sig = sign_challenge cid ts
      in (challenges(cid \<mapsto> \<lparr>created = ts, min_drag = 230, secret = b64encode rnd\<rparr>),
          JObj [(''challenge_id'', JStr cid), (''timestamp'', JInt ts),
                (''signature'', JStr sig), (''expires_in'', JInt 120)]))"

subsection \<open>\<open>api_verify\<close>\<close>

datatype error =
    bad_request | missing_params | bad_timestamp | expired | invalid_signature
  | invalid_proof | malformed_points | bad_timing | too_fast | too_slow | incomplete

text \<open>
  \<open>Failure e c\<close> is \<open>jsonify({"success": False, "error": e}), c\<close>; \<open>Success t\<close> is
  \<open>jsonify({"success": True, "token": t})\<close>; \<open>Uncaught x\<close> is an exception that leaves
  \<open>api_verify\<close>, which Flask answers with status 500.
\<close>

datatype response = Success string | Failure error nat | Uncaught pyexc

text \<open>The loop over \<open>range(1, len(times))\<close>: \<open>False\<close> when it returns \<open>bad_timing\<close>.\<close>

fun monotonic :: "int list \<Rightarrow> bool" where
  "monotonic (a # b # r) = (if b \<le> a then False else monotonic (b # r))"
| "monotonic _ = True"

text \<open>
  The body of \<open>if isinstance(points, list) and len(points) > 0\<close>. \<open>Some (Some r)\<close> is the
  early return of \<open>r\<close>, \<open>Some None\<close> falls through to the success path.
\<close>

definition heuristics :: "store \<Rightarrow> json \<Rightarrow> json list \<Rightarrow> response option option" where
  "heuristics challenges challenge_id points =
     (case comprehension (point_int ''t'' 0) points of
        None \<Rightarrow> None
      | Some (Inl e) \<Rightarrow> Some (Some (Failure malformed_points 400))
      | Some (Inr times') \<Rightarrow>
     (case comprehension (point_int ''x'' 1) points of
        None \<Rightarrow> None
      | Some (Inl e) \<Rightarrow> Some (Some (Failure malformed_points 400))
      | Some (Inr xs) \<Rightarrow>
          Some (if \<not> monotonic times' then Some (Failure bad_timing 400)
           else let total_ms = last times' - hd times'
            in if total_ms < 60 then Some (Failure too_fast 400)
               else if total_ms > 10000 then Some (Failure too_slow 400)
               else (case store_get challenges challenge_id of
                       Inl e \<Rightarrow> Some (Uncaught e)
                     | Inr meta \<Rightarrow>
                         let min_drag = (case meta of Some m \<Rightarrow> min_drag m | None \<Rightarrow> 230);
                             final_x = last xs
                         in if final_x < min_drag then Some (Failure incomplete 400)
                            else None))))"

text \<open>The success path: the final token, and the entry popped from the store.\<close>

definition final_token :: "string \<Rightarrow> string" where
  "final_token cid = hexdigest SECRET_KEY (encode cid)"

definition succeed :: "store \<Rightarrow> json \<Rightarrow> string \<Rightarrow> store \<times> response" where
  "succeed challenges challenge_id cid =
     (case store_pop challenges challenge_id of
        Inl e \<Rightarrow> (challenges, Uncaught e)
      | Inr challenges' \<Rightarrow> (challenges', Success (final_token cid)))"

text \<open>
  \<open>api_verify challenges now body\<close>: \<open>challenges\<close> is the store before the call, \<open>now\<close> is
  \<open>int(time.time())\<close>, and \<open>body\<close> is what \<open>request.get_json(force=True)\<close> returns, \<open>None\<close>
  when it raises. The result is the store after the call and the response; \<open>None\<close> is a
  request outside the model (see \<open>py_str\<close> and \<open>int_of_digits\<close>).
\<close>

definition api_verify :: "store \<Rightarrow> int \<Rightarrow> json option \<Rightarrow> (store \<times> response) option" where
  "api_verify challenges now body =
     (case body of
        None \<Rightarrow> Some (challenges, Failure bad_request 400)
      | Some (JObj data) \<Rightarrow>
          (let challenge_id = dict_get data ''challenge_id'' JNull;
               timestamp = dict_get data ''timestamp'' JNull;
               signature = dict_get data ''signature'' JNull;
               proof = dict_get data ''proof'' (JStr []);
               points = dict_get data ''points'' (JList [])
           in if \<not> (truthy challenge_id \<and> truthy timestamp \<and> truthy signature)
              then Some (challenges, Failure missing_params 400)
              else
          (case py_int timestamp of
             None \<Rightarrow> None
           | Some (Inl e) \<Rightarrow> Some (challenges, Failure bad_timestamp 400)
           | Some (Inr ts) \<Rightarrow>
               if now - ts > 120 then Some (challenges, Failure expired 400)
               else
          (case py_str challenge_id of
             None \<Rightarrow> None
           | Some cid \<Rightarrow>
          (case verify_signature cid ts signature of
             Inl e \<Rightarrow> Some (challenges, Uncaught e)
           | Inr ok \<Rightarrow>
               if \<not> ok then Some (challenges, Failure invalid_signature 403)
               else
          (let expected_proof = b64encode (encode (''swiped-'' @ cid))
           in if proof \<noteq> JStr expected_proof
              then Some (challenges, Failure invalid_proof 400)
              else
          (case points of
             JList (p # ps) \<Rightarrow>
               (case heuristics challenges challenge_id (p # ps) of
                  None \<Rightarrow> None
                | Some (Some r) \<Rightarrow> Some (challenges, r)
                | Some None \<Rightarrow> Some (succeed challenges challenge_id cid))
           | _ \<Rightarrow> Some (succeed challenges challenge_id cid)))))))
      | Some _ \<Rightarrow> Some (challenges, Uncaught AttributeError))"

subsection \<open>The request that the served page sends\<close>

text \<open>
  The script of the page served by \<open>serve_captcha\<close> posts this payload to
  \<open>/api/captcha/verify\<close>: the three fields of the challenge it got from \<open>api_create\<close>,
  \<open>btoa('swiped-' + CHAL.challenge_id)\<close> as proof, and the recorded \<open>{t, x}\<close> samples.
  \<open>btoa\<close> takes each character as one byte.
\<close>

definition btoa :: "string \<Rightarrow> string" where
  "btoa s = b64encode (map (\<lambda>c. of_nat (of_char c)) s)"

definition verify_payload :: "string \<Rightarrow> int \<Rightarrow> string \<Rightarrow> (int \<times> int) list \<Rightarrow> json" where
  "verify_payload cid ts sig swipePoints =
     JObj [(''challenge_id'', JStr cid),
           (''timestamp'', JInt ts),
           (''signature'', JStr sig),
           (''proof'', JStr (btoa (''swiped-'' @ cid))),
           (''points'', JList (map (\<lambda>(t, x). JObj [(''t'', JInt t), (''x'', JInt x)]) swipePoints))]"

section \<open>Facts about the library functions\<close>

text \<open>A digest has 32 bytes, so a signature is 64 ASCII characters.\<close>

lemma length_sha256_round: "length (sha256_round s kw) = length s"
  by (cases "(s, kw)" rule: sha256_round.cases) (simp_all add: Let_def)

lemma length_foldl_round: "length (foldl sha256_round s kws) = length s"
  by (induction kws arbitrary: s) (simp_all add: length_sha256_round)

lemma length_sha256_block: "length (sha256_block hs blk) = length hs"
  by (simp add: sha256_block_def Let_def length_foldl_round)

lemma length_foldl_block: "length (foldl sha256_block hs blks) = length hs"
  by (induction blks arbitrary: hs) (simp_all add: length_sha256_block)

lemma length_concat_const: "(\<And>x. length (f x) = k) \<Longrightarrow> length (concat (map f xs)) = k * length xs"
  by (induction xs) simp_all

lemma length_sha256: "length (sha256 m) = 32"
  by (simp add: sha256_def length_concat_const [where k = 4] be_bytes_def
      length_foldl_block sha256_init_def)

lemma length_hex: "length (hex bs) = 2 * length bs"
  by (simp add: hex_def length_concat_const [where k = 2])

lemma hexdigit_ascii: "k < 16 \<Longrightarrow> (of_char (hexdigits ! k) :: nat) < 128"
proof -
  assume "k < 16"
  then have "k \<in> {0..<16}" by simp
  then have "k \<in> set [0..<16]" by (simp only: set_upt)
  then show ?thesis
    by (simp add: upt_rec hexdigits_def numeral_eq_Suc) (auto)
qed

lemma is_ascii_hex: "is_ascii (hex bs)"
proof -
  have "unat b div 16 < 16" for b :: byte
    using unsigned_less [of b, where 'a = nat] by (simp add: div_less_iff_less_mult)
  then show ?thesis
    by (auto simp: is_ascii_def hex_def hexdigit_ascii)
qed

lemma length_sign_challenge: "length (sign_challenge cid ts) = 64"
  by (simp add: sign_challenge_def hexdigest_def length_hex hmac_sha256_def Let_def length_sha256)

lemma sign_challenge_nonempty: "sign_challenge cid ts \<noteq> []"
  using length_sign_challenge [of cid ts] by auto

lemma is_ascii_sign_challenge: "is_ascii (sign_challenge cid ts)"
  by (simp add: sign_challenge_def hexdigest_def is_ascii_hex Let_def)

lemma verify_signature_own: "verify_signature cid ts (JStr (sign_challenge cid ts)) = Inr True"
  by (simp add: verify_signature_def is_ascii_sign_challenge)

section \<open>Facts about the program\<close>

lemma length_comprehension:
  "comprehension f ps = Some (Inr vs) \<Longrightarrow> length vs = length ps"
  by (induction ps arbitrary: vs) (auto split: option.splits sum.splits)

text \<open>The loop accepts exactly the strictly increasing lists.\<close>

lemma monotonic_iff:
  "monotonic ts \<longleftrightarrow> (\<forall>i. 0 < i \<and> i < length ts \<longrightarrow> ts ! (i - 1) < ts ! i)"
proof (induction ts rule: monotonic.induct)
  case (1 a b r)
  show ?case
  proof (cases "b \<le> a")
    case True
    then have "\<not> (\<forall>i. 0 < i \<and> i < length (a # b # r) \<longrightarrow> (a # b # r) ! (i - 1) < (a # b # r) ! i)"
      by (auto intro!: exI [of _ 1])
    with True show ?thesis by simp
  next
    case False
    have "(\<forall>i. 0 < i \<and> i < length (a # b # r) \<longrightarrow> (a # b # r) ! (i - 1) < (a # b # r) ! i)
       \<longleftrightarrow> (\<forall>i. 0 < i \<and> i < length (b # r) \<longrightarrow> (b # r) ! (i - 1) < (b # r) ! i)"
      (is "?L \<longleftrightarrow> ?R")
    proof
      assume l: ?L
      show ?R
      proof (intro allI impI)
        fix i assume "0 < i \<and> i < length (b # r)"
        then show "(b # r) ! (i - 1) < (b # r) ! i"
          using l [rule_format, of "Suc i"] by simp
      qed
    next
      assume r: ?R
      show ?L
      proof (intro allI impI)
        fix i assume i: "0 < i \<and> i < length (a # b # r)"
        show "(a # b # r) ! (i - 1) < (a # b # r) ! i"
        proof (cases "i = 1")
          case True
          with False show ?thesis by simp
        next
          case False
          then obtain j where "i = Suc j" "0 < j" using i by (cases i) auto
          then show ?thesis using r [rule_format, of j] i by simp
        qed
      qed
    qed
    with False 1 show ?thesis by simp
  qed
qed auto


text \<open>
  A request that passes the presence, timestamp, expiry, signature and proof checks is
  decided by the heuristics on its points alone.
\<close>

lemma api_verify_valid:
  assumes "dict_get data ''challenge_id'' JNull = JStr cid" and "cid \<noteq> []"
    and "truthy (dict_get data ''timestamp'' JNull)"
    and "py_int (dict_get data ''timestamp'' JNull) = Some (Inr ts)"
    and "now - ts \<le> 120"
    and "dict_get data ''signature'' JNull = JStr (sign_challenge cid ts)"
    and "dict_get data ''proof'' (JStr []) = JStr (b64encode (encode (''swiped-'' @ cid)))"
  shows "api_verify challenges now (Some (JObj data)) =
     (case dict_get data ''points'' (JList []) of
        JList (p # ps) \<Rightarrow>
          (case heuristics challenges (JStr cid) (p # ps) of
             None \<Rightarrow> None
           | Some (Some r) \<Rightarrow> Some (challenges, r)
           | Some None \<Rightarrow> Some (succeed challenges (JStr cid) cid))
      | _ \<Rightarrow> Some (succeed challenges (JStr cid) cid))"
  using assms
  by (simp add: api_verify_def Let_def sign_challenge_nonempty verify_signature_own)

lemma succeed_str: "succeed challenges (JStr cid) cid = (challenges(cid := None), Success (final_token cid))"
  by (simp add: succeed_def)

lemma verify_signature_cases:
  "s \<noteq> sign_challenge cid ts \<Longrightarrow>
     verify_signature cid ts (JStr s) = (if is_ascii s then Inr False else Inl TypeError)"
  by (simp add: verify_signature_def is_ascii_sign_challenge)

text \<open>With its points parsed, the heuristics are four comparisons.\<close>

lemma heuristics_parsed:
  assumes "comprehension (point_int ''t'' 0) points = Some (Inr tms)"
    and "comprehension (point_int ''x'' 1) points = Some (Inr xs)"
  shows "heuristics challenges (JStr cid) points =
     Some (if \<not> monotonic tms then Some (Failure bad_timing 400)
           else if last tms - hd tms < 60 then Some (Failure too_fast 400)
           else if last tms - hd tms > 10000 then Some (Failure too_slow 400)
           else if last xs < (case challenges cid of Some m \<Rightarrow> min_drag m | None \<Rightarrow> 230)
                then Some (Failure incomplete 400)
           else None)"
  using assms by (simp add: heuristics_def Let_def)

lemma api_verify_points:
  assumes "dict_get data ''challenge_id'' JNull = JStr cid" and "cid \<noteq> []"
    and "truthy (dict_get data ''timestamp'' JNull)"
    and "py_int (dict_get data ''timestamp'' JNull) = Some (Inr ts)"
    and "now - ts \<le> 120"
    and "dict_get data ''signature'' JNull = JStr (sign_challenge cid ts)"
    and "dict_get data ''proof'' (JStr []) = JStr (b64encode (encode (''swiped-'' @ cid)))"
    and "dict_get data ''points'' (JList []) = JList points" and "points \<noteq> []"
    and "comprehension (point_int ''t'' 0) points = Some (Inr tms)"
    and "comprehension (point_int ''x'' 1) points = Some (Inr xs)"
  shows "api_verify challenges now (Some (JObj data)) =
     Some (if \<not> monotonic tms then (challenges, Failure bad_timing 400)
           else if last tms - hd tms < 60 then (challenges, Failure too_fast 400)
           else if last tms - hd tms > 10000 then (challenges, Failure too_slow 400)
           else if last xs < (case challenges cid of Some m \<Rightarrow> min_drag m | None \<Rightarrow> 230)
                then (challenges, Failure incomplete 400)
           else (challenges(cid := None), Success (final_token cid)))"
proof -
  from assms(9) obtain p ps where ps: "points = p # ps" by (cases points) auto
  show ?thesis
    using api_verify_valid [OF assms(1-7), of challenges] assms(8)
      heuristics_parsed [OF assms(10,11), of challenges cid]
    by (simp add: ps succeed_str)
qed

text \<open>The responses that the two tails of \<open>api_verify\<close> can give.\<close>

lemma succeed_cases:
  "succeed challenges cj cid = (st', r) \<Longrightarrow>
     (\<exists>t. r = Success t) \<or> (\<exists>e. r = Uncaught e \<and> st' = challenges)"
  by (auto simp: succeed_def split: sum.splits)

lemma heuristics_cases:
  "heuristics challenges cj points = Some (Some r) \<Longrightarrow>
     r \<in> {Failure malformed_points 400, Failure bad_timing 400, Failure too_fast 400,
          Failure too_slow 400, Failure incomplete 400} \<or> (\<exists>e. r = Uncaught e)"
  by (auto simp: heuristics_def Let_def split: option.splits sum.splits if_splits)

text \<open>Past the timestamp conversion, \<open>expired\<close> is returned by the expiry check only.\<close>

lemma api_verify_not_expired:
  assumes "py_int (dict_get data ''timestamp'' JNull) = Some (Inr ts)" and "now - ts \<le> 120"
  shows "api_verify challenges now (Some (JObj data)) \<noteq> Some (st', Failure expired c)"
  using assms unfolding api_verify_def Let_def
  by (auto split: option.splits sum.splits if_splits json.splits list.splits
      dest!: succeed_cases heuristics_cases)

text \<open>
  \<open>missing_params\<close> is the answer exactly when one of the three fields is absent or
  falsy: \<open>None\<close>, \<open>False\<close>, a zero, an empty string, list or dict.
\<close>

lemma missing_params_iff:
  "api_verify challenges now (Some (JObj data)) = Some (challenges, Failure missing_params 400)
   \<longleftrightarrow> \<not> (truthy (dict_get data ''challenge_id'' JNull) \<and>
           truthy (dict_get data ''timestamp'' JNull) \<and>
           truthy (dict_get data ''signature'' JNull))"
  unfolding api_verify_def Let_def
  by (auto split: option.splits sum.splits if_splits json.splits list.splits
      dest!: succeed_cases heuristics_cases)

subsection \<open>The page's payload\<close>

lemma proof_marker_c1: "b64encode (encode ''swiped-c1'') = ''c3dpcGVkLWMx''"
  by code_simp

lemma btoa_c1: "btoa ''swiped-c1'' = ''c3dpcGVkLWMx''"
  by code_simp

lemma payload_fields:
  "dict_get [(''challenge_id'', JStr cid), (''timestamp'', JInt ts), (''signature'', JStr sig),
             (''proof'', JStr pr), (''points'', pts)] ''challenge_id'' d1 = JStr cid"
  "dict_get [(''challenge_id'', JStr cid), (''timestamp'', JInt ts), (''signature'', JStr sig),
             (''proof'', JStr pr), (''points'', pts)] ''timestamp'' d2 = JInt ts"
  "dict_get [(''challenge_id'', JStr cid), (''timestamp'', JInt ts), (''signature'', JStr sig),
             (''proof'', JStr pr), (''points'', pts)] ''signature'' d3 = JStr sig"
  "dict_get [(''challenge_id'', JStr cid), (''timestamp'', JInt ts), (''signature'', JStr sig),
             (''proof'', JStr pr), (''points'', pts)] ''proof'' d4 = JStr pr"
  "dict_get [(''challenge_id'', JStr cid), (''timestamp'', JInt ts), (''signature'', JStr sig),
             (''proof'', JStr pr), (''points'', pts)] ''points'' d5 = pts"
  by (simp_all add: dict_get_def)

lemma parse_samples:
  "comprehension (point_int ''t'' 0) (map (\<lambda>(t, x). JObj [(''t'', JInt t), (''x'', JInt x)]) sp)
     = Some (Inr (map fst sp))"
  "comprehension (point_int ''x'' 1) (map (\<lambda>(t, x). JObj [(''t'', JInt t), (''x'', JInt x)]) sp)
     = Some (Inr (map snd sp))"
  by (induction sp) (auto simp: point_int_def)

text \<open>What \<open>api_verify\<close> answers to the page's payload for the challenge \<open>c1\<close>.\<close>

lemma api_verify_payload_c1:
  assumes "ts \<noteq> 0" and "now - ts \<le> 120"
  shows "api_verify challenges now (Some (verify_payload ''c1'' ts (sign_challenge ''c1'' ts) sp)) =
     Some (if sp = [] then (challenges(''c1'' := None), Success (final_token ''c1''))
           else if \<not> monotonic (map fst sp) then (challenges, Failure bad_timing 400)
           else if last (map fst sp) - hd (map fst sp) < 60 then (challenges, Failure too_fast 400)
           else if last (map fst sp) - hd (map fst sp) > 10000 then (challenges, Failure too_slow 400)
           else if last (map snd sp) < (case challenges ''c1'' of Some m \<Rightarrow> min_drag m | None \<Rightarrow> 230)
                then (challenges, Failure incomplete 400)
           else (challenges(''c1'' := None), Success (final_token ''c1'')))"
proof (cases "sp = []")
  case True
  with assms show ?thesis
    using api_verify_valid [of "[(''challenge_id'', JStr ''c1''), (''timestamp'', JInt ts),
        (''signature'', JStr (sign_challenge ''c1'' ts)), (''proof'', JStr ''c3dpcGVkLWMx''),
        (''points'', JList [])]" "''c1''" ts now challenges]
    by (simp add: verify_payload_def btoa_c1 proof_marker_c1 payload_fields succeed_str)
next
  case False
  with assms show ?thesis
    using api_verify_points [OF _ _ _ _ _ _ _ _ _ parse_samples, of
        "[(''challenge_id'', JStr ''c1''), (''timestamp'', JInt ts),
          (''signature'', JStr (sign_challenge ''c1'' ts)), (''proof'', JStr ''c3dpcGVkLWMx''),
          (''points'', JList (map (\<lambda>(t, x). JObj [(''t'', JInt t), (''x'', JInt x)]) sp))]"
        "''c1''" ts now sp challenges]
    by (simp add: verify_payload_def btoa_c1 proof_marker_c1 payload_fields)
qed

section \<open>The claims\<close>

subsection \<open>C1: one-time use\<close>

text \<open>
  C1 does not hold of the code. A challenge \<open>c1\<close> is issued at time 1000; the page's
  payload for it, with the trace \<open>[{t:0,x:0},{t:100,x:250}]\<close>, is verified at time 1010,
  which succeeds and pops the entry; the identical payload sent again at time 1011 succeeds
  again, with the same token. The store is read for \<open>min_drag\<close> only, and an absent entry
  means the default 230.
\<close>

theorem replay_accepted:
  "api_create Map.empty ''c1'' 1000 (replicate 16 0) =
     ([''c1'' \<mapsto> \<lparr>created = 1000, min_drag = 230, secret = b64encode (replicate 16 0)\<rparr>],
      JObj [(''challenge_id'', JStr ''c1''), (''timestamp'', JInt 1000),
            (''signature'', JStr (sign_challenge ''c1'' 1000)), (''expires_in'', JInt 120)]) \<and>
   api_verify [''c1'' \<mapsto> \<lparr>created = 1000, min_drag = 230, secret = b64encode (replicate 16 0)\<rparr>]
     1010 (Some (verify_payload ''c1'' 1000 (sign_challenge ''c1'' 1000) [(0, 0), (100, 250)])) =
     Some (Map.empty, Success (final_token ''c1'')) \<and>
   api_verify Map.empty
     1011 (Some (verify_payload ''c1'' 1000 (sign_challenge ''c1'' 1000) [(0, 0), (100, 250)])) =
     Some (Map.empty, Success (final_token ''c1''))"
  by (simp add: api_create_def api_verify_payload_c1)

subsection \<open>C2: the expiry boundary\<close>

text \<open>
  C2, as the code has it. When the three fields are truthy and the timestamp converts to
  \<open>ts\<close>, the request is rejected as \<open>expired\<close> if \<open>now - ts > 120\<close>, and is not rejected as
  \<open>expired\<close> if \<open>now - ts \<le> 120\<close>: 121 seconds is a reject, 120 and 119 proceed.
\<close>

theorem expiry_boundary:
  assumes "truthy (dict_get data ''challenge_id'' JNull)"
    and "truthy (dict_get data ''timestamp'' JNull)"
    and "truthy (dict_get data ''signature'' JNull)"
    and "py_int (dict_get data ''timestamp'' JNull) = Some (Inr ts)"
  shows "(now - ts > 120 \<longrightarrow>
            api_verify challenges now (Some (JObj data)) = Some (challenges, Failure expired 400)) \<and>
         (now - ts \<le> 120 \<longrightarrow>
            (\<forall>st' c. api_verify challenges now (Some (JObj data)) \<noteq>
                       Some (st', Failure expired c)))"
proof (intro conjI impI allI)
  assume "now - ts > 120"
  with assms show "api_verify challenges now (Some (JObj data)) =
      Some (challenges, Failure expired 400)"
    by (simp add: api_verify_def Let_def)
next
  fix st' c
  assume "now - ts \<le> 120"
  with assms(4) show "api_verify challenges now (Some (JObj data)) \<noteq>
      Some (st', Failure expired c)"
    by (rule api_verify_not_expired)
qed

text \<open>The same payload at 121, 120 and 119 seconds after issuance.\<close>

theorem expiry_boundary_witness:
  "api_verify Map.empty 1121
     (Some (verify_payload ''c1'' 1000 (sign_challenge ''c1'' 1000) [])) =
     Some (Map.empty, Failure expired 400) \<and>
   api_verify Map.empty 1120
     (Some (verify_payload ''c1'' 1000 (sign_challenge ''c1'' 1000) [])) \<noteq>
     Some (Map.empty, Failure expired 400) \<and>
   api_verify Map.empty 1119
     (Some (verify_payload ''c1'' 1000 (sign_challenge ''c1'' 1000) [])) \<noteq>
     Some (Map.empty, Failure expired 400)"
proof -
  have eb: "(now - 1000 > 120 \<longrightarrow>
       api_verify Map.empty now
         (Some (verify_payload ''c1'' 1000 (sign_challenge ''c1'' 1000) [])) =
       Some (Map.empty, Failure expired 400)) \<and>
     (now - 1000 \<le> 120 \<longrightarrow>
       (\<forall>st' c. api_verify Map.empty now
         (Some (verify_payload ''c1'' 1000 (sign_challenge ''c1'' 1000) [])) \<noteq>
       Some (st', Failure expired c)))" for now
    using expiry_boundary [where data = "[(''challenge_id'', JStr ''c1''),
          (''timestamp'', JInt 1000), (''signature'', JStr (sign_challenge ''c1'' 1000)),
          (''proof'', JStr ''c3dpcGVkLWMx''), (''points'', JList [])]"
        and ts = 1000 and now = now and challenges = Map.empty]
    by (simp add: verify_payload_def btoa_c1 payload_fields sign_challenge_nonempty)
  show ?thesis
    using eb [of 1121] eb [of 1120] eb [of 1119] by simp
qed

text \<open>
  C2 as stated fails: at \<open>now - ts = 120\<close> exactly the payload is not rejected as
  \<open>expired\<close>, it is verified.
\<close>

theorem expiry_boundary_counterexample:
  "(1120 :: int) - 1000 = 120 \<and>
   api_verify Map.empty 1120
     (Some (verify_payload ''c1'' 1000 (sign_challenge ''c1'' 1000) [])) =
     Some (Map.empty, Success (final_token ''c1''))"
  by (simp add: api_verify_payload_c1)

subsection \<open>C3: the presence check\<close>

text \<open>
  C3 does not hold of the code. In the page's payload with the integer timestamp 0 the
  three fields are present and the strings are non-empty, yet the answer is
  \<open>missing_params\<close>, whatever the store and the clock: the check is \<open>not (challenge_id and
  timestamp and signature)\<close>, and 0 is falsy.
\<close>

theorem zero_timestamp_missing_params:
  "api_verify challenges now
     (Some (verify_payload ''c1'' 0 (sign_challenge ''c1'' 0) [(0, 0), (100, 250)])) =
   Some (challenges, Failure missing_params 400)"
  by (simp add: api_verify_def verify_payload_def Let_def payload_fields)

subsection \<open>C4: the timing window\<close>

text \<open>
  C4. For a request that reaches the heuristics with a non-empty list of points that
  parses into the times \<open>tms\<close> and the positions \<open>xs\<close>, the times strictly increasing:
  an elapsed time \<open>last tms - hd tms\<close> below 60 is rejected as \<open>too_fast\<close>, one above 10000
  as \<open>too_slow\<close>, and one from 60 to 10000 passes the timing check, the answer then being
  that of the position check.
\<close>

theorem timing_window:
  assumes "dict_get data ''challenge_id'' JNull = JStr cid" and "cid \<noteq> []"
    and "truthy (dict_get data ''timestamp'' JNull)"
    and "py_int (dict_get data ''timestamp'' JNull) = Some (Inr ts)"
    and "now - ts \<le> 120"
    and "dict_get data ''signature'' JNull = JStr (sign_challenge cid ts)"
    and "dict_get data ''proof'' (JStr []) = JStr (b64encode (encode (''swiped-'' @ cid)))"
    and "dict_get data ''points'' (JList []) = JList points" and "points \<noteq> []"
    and "comprehension (point_int ''t'' 0) points = Some (Inr tms)"
    and "comprehension (point_int ''x'' 1) points = Some (Inr xs)"
    and "\<forall>i. 0 < i \<and> i < length tms \<longrightarrow> tms ! (i - 1) < tms ! i"
  shows "(last tms - hd tms < 60 \<longrightarrow>
            api_verify challenges now (Some (JObj data)) = Some (challenges, Failure too_fast 400)) \<and>
         (last tms - hd tms > 10000 \<longrightarrow>
            api_verify challenges now (Some (JObj data)) = Some (challenges, Failure too_slow 400)) \<and>
         (60 \<le> last tms - hd tms \<and> last tms - hd tms \<le> 10000 \<longrightarrow>
            api_verify challenges now (Some (JObj data)) =
              Some (if last xs < (case challenges cid of Some m \<Rightarrow> min_drag m | None \<Rightarrow> 230)
                    then (challenges, Failure incomplete 400)
                    else (challenges(cid := None), Success (final_token cid))))"
proof -
  from assms(12) have "monotonic tms" by (simp add: monotonic_iff)
  then show ?thesis
    by (simp add: api_verify_points [OF assms(1-11)])
qed

text \<open>Elapsed times of 59, 60, 10000 and 10001 milliseconds.\<close>

theorem timing_window_witness:
  "api_verify Map.empty 1010
     (Some (verify_payload ''c1'' 1000 (sign_challenge ''c1'' 1000) [(0, 0), (59, 250)])) =
     Some (Map.empty, Failure too_fast 400) \<and>
   api_verify Map.empty 1010
     (Some (verify_payload ''c1'' 1000 (sign_challenge ''c1'' 1000) [(0, 0), (60, 250)])) =
     Some (Map.empty, Success (final_token ''c1'')) \<and>
   api_verify Map.empty 1010
     (Some (verify_payload ''c1'' 1000 (sign_challenge ''c1'' 1000) [(0, 0), (10000, 250)])) =
     Some (Map.empty, Success (final_token ''c1'')) \<and>
   api_verify Map.empty 1010
     (Some (verify_payload ''c1'' 1000 (sign_challenge ''c1'' 1000) [(0, 0), (10001, 250)])) =
     Some (Map.empty, Failure too_slow 400)"
proof -
  have tw: "(last (map fst sp) - hd (map fst sp) < 60 \<longrightarrow>
       api_verify Map.empty 1010
         (Some (verify_payload ''c1'' 1000 (sign_challenge ''c1'' 1000) sp)) =
       Some (Map.empty, Failure too_fast 400)) \<and>
     (last (map fst sp) - hd (map fst sp) > 10000 \<longrightarrow>
       api_verify Map.empty 1010
         (Some (verify_payload ''c1'' 1000 (sign_challenge ''c1'' 1000) sp)) =
       Some (Map.empty, Failure too_slow 400)) \<and>
     (60 \<le> last (map fst sp) - hd (map fst sp) \<and> last (map fst sp) - hd (map fst sp) \<le> 10000 \<longrightarrow>
       api_verify Map.empty 1010
         (Some (verify_payload ''c1'' 1000 (sign_challenge ''c1'' 1000) sp)) =
       Some (if last (map snd sp) < 230 then (Map.empty, Failure incomplete 400)
             else (Map.empty, Success (final_token ''c1''))))"
    if "sp \<noteq> []" and "monotonic (map fst sp)" for sp
    using that timing_window [OF _ _ _ _ _ _ _ _ _ parse_samples that(2) [THEN monotonic_iff [THEN iffD1]],
        where data = "[(''challenge_id'', JStr ''c1''), (''timestamp'', JInt 1000),
          (''signature'', JStr (sign_challenge ''c1'' 1000)), (''proof'', JStr ''c3dpcGVkLWMx''),
          (''points'', JList (map (\<lambda>(t, x). JObj [(''t'', JInt t), (''x'', JInt x)]) sp))]"
        and cid = "''c1''" and ts = 1000 and now = 1010 and challenges = Map.empty]
    by (simp add: verify_payload_def btoa_c1 proof_marker_c1 payload_fields)
  show ?thesis
    using tw [of "[(0, 0), (59, 250)]"] tw [of "[(0, 0), (60, 250)]"]
      tw [of "[(0, 0), (10000, 250)]"] tw [of "[(0, 0), (10001, 250)]"]
    by simp
qed

subsection \<open>C5: the completion threshold\<close>

text \<open>
  C5. For a request whose trace passes the timing checks, with \<open>threshold\<close> the
  \<open>min_drag\<close> stored for the id, or 230 when the store has no entry for it: a final
  position below the threshold is rejected as \<open>incomplete\<close>, and one equal to or above it
  is verified.
\<close>

theorem completion_threshold:
  assumes "dict_get data ''challenge_id'' JNull = JStr cid" and "cid \<noteq> []"
    and "truthy (dict_get data ''timestamp'' JNull)"
    and "py_int (dict_get data ''timestamp'' JNull) = Some (Inr ts)"
    and "now - ts \<le> 120"
    and "dict_get data ''signature'' JNull = JStr (sign_challenge cid ts)"
    and "dict_get data ''proof'' (JStr []) = JStr (b64encode (encode (''swiped-'' @ cid)))"
    and "dict_get data ''points'' (JList []) = JList points" and "points \<noteq> []"
    and "comprehension (point_int ''t'' 0) points = Some (Inr tms)"
    and "comprehension (point_int ''x'' 1) points = Some (Inr xs)"
    and "\<forall>i. 0 < i \<and> i < length tms \<longrightarrow> tms ! (i - 1) < tms ! i"
    and "60 \<le> last tms - hd tms" and "last tms - hd tms \<le> 10000"
  shows "(last xs < (case challenges cid of Some m \<Rightarrow> min_drag m | None \<Rightarrow> 230) \<longrightarrow>
            api_verify challenges now (Some (JObj data)) =
              Some (challenges, Failure incomplete 400)) \<and>
         ((case challenges cid of Some m \<Rightarrow> min_drag m | None \<Rightarrow> 230) \<le> last xs \<longrightarrow>
            api_verify challenges now (Some (JObj data)) =
              Some (challenges(cid := None), Success (final_token cid)))"
proof -
  from assms(12) have "monotonic tms" by (simp add: monotonic_iff)
  with assms(13,14) show ?thesis
    by (simp add: api_verify_points [OF assms(1-11)])
qed

text \<open>
  Final positions 229 and 230 with no entry in the store, and 299 against a stored
  threshold of 300.
\<close>

theorem completion_threshold_witness:
  "api_verify Map.empty 1010
     (Some (verify_payload ''c1'' 1000 (sign_challenge ''c1'' 1000) [(0, 0), (100, 229)])) =
     Some (Map.empty, Failure incomplete 400) \<and>
   api_verify Map.empty 1010
     (Some (verify_payload ''c1'' 1000 (sign_challenge ''c1'' 1000) [(0, 0), (100, 230)])) =
     Some (Map.empty, Success (final_token ''c1'')) \<and>
   api_verify [''c1'' \<mapsto> \<lparr>created = 1000, min_drag = 300, secret = []\<rparr>] 1010
     (Some (verify_payload ''c1'' 1000 (sign_challenge ''c1'' 1000) [(0, 0), (100, 299)])) =
     Some ([''c1'' \<mapsto> \<lparr>created = 1000, min_drag = 300, secret = []\<rparr>], Failure incomplete 400)"
proof -
  have ct: "(last (map snd sp) < (case st ''c1'' of Some m \<Rightarrow> min_drag m | None \<Rightarrow> 230) \<longrightarrow>
       api_verify st 1010
         (Some (verify_payload ''c1'' 1000 (sign_challenge ''c1'' 1000) sp)) =
       Some (st, Failure incomplete 400)) \<and>
     ((case st ''c1'' of Some m \<Rightarrow> min_drag m | None \<Rightarrow> 230) \<le> last (map snd sp) \<longrightarrow>
       api_verify st 1010
         (Some (verify_payload ''c1'' 1000 (sign_challenge ''c1'' 1000) sp)) =
       Some (st(''c1'' := None), Success (final_token ''c1'')))"
    if "sp \<noteq> []" and "monotonic (map fst sp)"
      and "60 \<le> last (map fst sp) - hd (map fst sp)"
      and "last (map fst sp) - hd (map fst sp) \<le> 10000" for sp st
    using that completion_threshold [OF _ _ _ _ _ _ _ _ _ parse_samples
        that(2) [THEN monotonic_iff [THEN iffD1]],
        where data = "[(''challenge_id'', JStr ''c1''), (''timestamp'', JInt 1000),
          (''signature'', JStr (sign_challenge ''c1'' 1000)), (''proof'', JStr ''c3dpcGVkLWMx''),
          (''points'', JList (map (\<lambda>(t, x). JObj [(''t'', JInt t), (''x'', JInt x)]) sp))]"
        and cid = "''c1''" and ts = 1000 and now = 1010 and challenges = st]
    by (simp add: verify_payload_def btoa_c1 proof_marker_c1 payload_fields)
  show ?thesis
    using ct [of "[(0, 0), (100, 229)]" Map.empty] ct [of "[(0, 0), (100, 230)]" Map.empty]
      ct [of "[(0, 0), (100, 299)]" "[''c1'' \<mapsto> \<lparr>created = 1000, min_drag = 300, secret = []\<rparr>]"]
    by simp
qed

subsection \<open>C6: monotonic timing\<close>

text \<open>
  C6. For a request that reaches the heuristics with a non-empty list of points that
  parses into the times \<open>tms\<close>: if some sample's time is less than or equal to the time of
  the sample before it, the request is rejected as \<open>bad_timing\<close>; if the times are
  strictly increasing, it is not rejected as \<open>bad_timing\<close>.
\<close>

theorem monotonic_timing:
  assumes "dict_get data ''challenge_id'' JNull = JStr cid" and "cid \<noteq> []"
    and "truthy (dict_get data ''timestamp'' JNull)"
    and "py_int (dict_get data ''timestamp'' JNull) = Some (Inr ts)"
    and "now - ts \<le> 120"
    and "dict_get data ''signature'' JNull = JStr (sign_challenge cid ts)"
    and "dict_get data ''proof'' (JStr []) = JStr (b64encode (encode (''swiped-'' @ cid)))"
    and "dict_get data ''points'' (JList []) = JList points" and "points \<noteq> []"
    and "comprehension (point_int ''t'' 0) points = Some (Inr tms)"
    and "comprehension (point_int ''x'' 1) points = Some (Inr xs)"
  shows "((\<exists>i. 0 < i \<and> i < length tms \<and> tms ! i \<le> tms ! (i - 1)) \<longrightarrow>
            api_verify challenges now (Some (JObj data)) =
              Some (challenges, Failure bad_timing 400)) \<and>
         ((\<forall>i. 0 < i \<and> i < length tms \<longrightarrow> tms ! (i - 1) < tms ! i) \<longrightarrow>
            (\<forall>st' c. api_verify challenges now (Some (JObj data)) \<noteq>
                       Some (st', Failure bad_timing c)))"
proof (intro conjI impI)
  assume "\<exists>i. 0 < i \<and> i < length tms \<and> tms ! i \<le> tms ! (i - 1)"
  then have "\<not> monotonic tms" by (auto simp: monotonic_iff)
  then show "api_verify challenges now (Some (JObj data)) =
      Some (challenges, Failure bad_timing 400)"
    by (simp add: api_verify_points [OF assms(1-11)])
next
  assume "\<forall>i. 0 < i \<and> i < length tms \<longrightarrow> tms ! (i - 1) < tms ! i"
  then have "monotonic tms" by (simp add: monotonic_iff)
  then show "\<forall>st' c. api_verify challenges now (Some (JObj data)) \<noteq>
      Some (st', Failure bad_timing c)"
    by (simp add: api_verify_points [OF assms(1-11)])
qed

text \<open>Two samples that share the time 50, and a strictly increasing trace.\<close>

theorem monotonic_timing_witness:
  "api_verify Map.empty 1010
     (Some (verify_payload ''c1'' 1000 (sign_challenge ''c1'' 1000)
        [(0, 0), (50, 100), (50, 250)])) =
     Some (Map.empty, Failure bad_timing 400) \<and>
   api_verify Map.empty 1010
     (Some (verify_payload ''c1'' 1000 (sign_challenge ''c1'' 1000) [(0, 0), (100, 250)])) \<noteq>
     Some (Map.empty, Failure bad_timing 400)"
proof -
  have mt: "((\<exists>i. 0 < i \<and> i < length (map fst sp) \<and> map fst sp ! i \<le> map fst sp ! (i - 1)) \<longrightarrow>
       api_verify Map.empty 1010
         (Some (verify_payload ''c1'' 1000 (sign_challenge ''c1'' 1000) sp)) =
       Some (Map.empty, Failure bad_timing 400)) \<and>
     ((\<forall>i. 0 < i \<and> i < length (map fst sp) \<longrightarrow> map fst sp ! (i - 1) < map fst sp ! i) \<longrightarrow>
       (\<forall>st' c. api_verify Map.empty 1010
         (Some (verify_payload ''c1'' 1000 (sign_challenge ''c1'' 1000) sp)) \<noteq>
       Some (st', Failure bad_timing c)))"
    if "sp \<noteq> []" for sp
    using that monotonic_timing [OF _ _ _ _ _ _ _ _ _ parse_samples [of sp],
        where data = "[(''challenge_id'', JStr ''c1''), (''timestamp'', JInt 1000),
          (''signature'', JStr (sign_challenge ''c1'' 1000)), (''proof'', JStr ''c3dpcGVkLWMx''),
          (''points'', JList (map (\<lambda>(t, x). JObj [(''t'', JInt t), (''x'', JInt x)]) sp))]"
        and cid = "''c1''" and ts = 1000 and now = 1010 and challenges = Map.empty]
    by (simp add: verify_payload_def btoa_c1 proof_marker_c1 payload_fields)
  have bad: "\<exists>i. 0 < i \<and> i < length (map fst [(0::int, 0::int), (50, 100), (50, 250)])
      \<and> map fst [(0::int, 0::int), (50, 100), (50, 250)] ! i
        \<le> map fst [(0::int, 0::int), (50, 100), (50, 250)] ! (i - 1)"
    by (rule exI [of _ 2]) simp
  have good: "\<forall>i. 0 < i \<and> i < length (map fst [(0::int, 0::int), (100, 250)])
      \<longrightarrow> map fst [(0::int, 0::int), (100, 250)] ! (i - 1)
        < map fst [(0::int, 0::int), (100, 250)] ! i"
    by (simp only: monotonic_iff [symmetric]) simp
  from mt [of "[(0, 0), (50, 100), (50, 250)]"] bad
  have 1: "api_verify Map.empty 1010
     (Some (verify_payload ''c1'' 1000 (sign_challenge ''c1'' 1000)
        [(0, 0), (50, 100), (50, 250)])) = Some (Map.empty, Failure bad_timing 400)"
    by blast
  from mt [of "[(0, 0), (100, 250)]"] good
  have 2: "api_verify Map.empty 1010
     (Some (verify_payload ''c1'' 1000 (sign_challenge ''c1'' 1000) [(0, 0), (100, 250)])) \<noteq>
     Some (Map.empty, Failure bad_timing 400)"
    by blast
  from 1 2 show ?thesis by (rule conjI)
qed

subsection \<open>C7: the path without points\<close>

text \<open>
  C7. A request whose \<open>challenge_id\<close> is a non-empty string, whose timestamp converts to
  \<open>ts\<close> with \<open>now - ts \<le> 120\<close>, whose signature is the one \<open>sign_challenge\<close> gives and
  whose proof is the marker of the id, and which has no \<open>points\<close> key or an empty list
  there, is answered with success and the token, whatever the store holds: none of
  \<open>malformed_points\<close>, \<open>bad_timing\<close>, \<open>too_fast\<close>, \<open>too_slow\<close>, \<open>incomplete\<close> can occur.
\<close>

theorem no_points_path:
  assumes "dict_get data ''challenge_id'' JNull = JStr cid" and "cid \<noteq> []"
    and "truthy (dict_get data ''timestamp'' JNull)"
    and "py_int (dict_get data ''timestamp'' JNull) = Some (Inr ts)"
    and "now - ts \<le> 120"
    and "dict_get data ''signature'' JNull = JStr (sign_challenge cid ts)"
    and "dict_get data ''proof'' (JStr []) = JStr (b64encode (encode (''swiped-'' @ cid)))"
    and "map_of data ''points'' = None \<or> map_of data ''points'' = Some (JList [])"
  shows "api_verify challenges now (Some (JObj data)) =
           Some (challenges(cid := None), Success (final_token cid))"
proof -
  from assms(8) have "dict_get data ''points'' (JList []) = JList []"
    by (auto simp: dict_get_def)
  with api_verify_valid [OF assms(1-7)] show ?thesis
    by (simp add: succeed_str)
qed

text \<open>A request without the \<open>points\<close> key, ten seconds after issuance.\<close>

theorem no_points_path_witness:
  "api_verify Map.empty 1010
     (Some (JObj [(''challenge_id'', JStr ''c1''), (''timestamp'', JInt 1000),
                  (''signature'', JStr (sign_challenge ''c1'' 1000)),
                  (''proof'', JStr ''c3dpcGVkLWMx'')])) =
   Some (Map.empty, Success (final_token ''c1''))"
  using no_points_path [of "[(''challenge_id'', JStr ''c1''), (''timestamp'', JInt 1000),
                  (''signature'', JStr (sign_challenge ''c1'' 1000)),
                  (''proof'', JStr ''c3dpcGVkLWMx'')]" "''c1''" 1000 1010 Map.empty]
  by (simp add: dict_get_def proof_marker_c1)

subsection \<open>C8: a rejection leaves the store as it was\<close>

text \<open>
  C8. Whenever \<open>api_verify\<close> answers with a failure, of whatever error code, the store
  after the call is the store before it; and the store changes only when the answer is a
  success.
\<close>

theorem failure_atomicity:
  assumes "api_verify challenges now body = Some (st', r)"
  shows "(\<forall>e c. r = Failure e c \<longrightarrow> st' = challenges) \<and>
         (st' \<noteq> challenges \<longrightarrow> (\<exists>t. r = Success t))"
proof -
  have "(\<exists>t. r = Success t) \<or> st' = challenges"
  proof (cases body)
    case None
    with assms show ?thesis by (simp add: api_verify_def)
  next
    case (Some d)
    show ?thesis
    proof (cases d)
      case (JObj data)
      with Some assms show ?thesis
        unfolding api_verify_def Let_def
        by (auto split: option.splits sum.splits if_splits json.splits list.splits
            dest: succeed_cases)
    qed (use Some assms in \<open>auto simp: api_verify_def\<close>)
  qed
  then show ?thesis by auto
qed

text \<open>A trace of 30 milliseconds is rejected as \<open>too_fast\<close> and the entry stays.\<close>

theorem failure_atomicity_witness:
  "\<exists>st'. api_verify [''c1'' \<mapsto> \<lparr>created = 1000, min_drag = 230, secret = []\<rparr>] 1010
       (Some (verify_payload ''c1'' 1000 (sign_challenge ''c1'' 1000) [(0, 0), (30, 250)])) =
       Some (st', Failure too_fast 400) \<and>
     st' = [''c1'' \<mapsto> \<lparr>created = 1000, min_drag = 230, secret = []\<rparr>]"
proof -
  have r: "api_verify [''c1'' \<mapsto> \<lparr>created = 1000, min_drag = 230, secret = []\<rparr>] 1010
       (Some (verify_payload ''c1'' 1000 (sign_challenge ''c1'' 1000) [(0, 0), (30, 250)])) =
       Some ([''c1'' \<mapsto> \<lparr>created = 1000, min_drag = 230, secret = []\<rparr>],
             Failure too_fast 400)"
    by (simp add: api_verify_payload_c1)
  from failure_atomicity [OF r] r show ?thesis by simp
qed

subsection \<open>C9: signature round trip\<close>

text \<open>
  C9 does not hold of the code. The one-character string U+00E9 differs from the signature
  of \<open>(abc, 1000)\<close>, and \<open>verify_signature\<close> does not return \<open>False\<close> on it: it raises
  \<open>TypeError\<close>, which \<open>api_verify\<close> does not catch. (The round trip itself is
  \<open>verify_signature_own\<close>, and on ASCII strings \<open>verify_signature_cases\<close> gives \<open>False\<close>.)
\<close>

theorem non_ascii_signature_raises:
  "[CHR 0xE9] \<noteq> sign_challenge ''abc'' 1000 \<and>
   verify_signature ''abc'' 1000 (JStr [CHR 0xE9]) = Inl TypeError \<and>
   api_verify challenges 1010 (Some (verify_payload ''abc'' 1000 [CHR 0xE9] [])) =
     Some (challenges, Uncaught TypeError)"
proof -
  have d: "[CHR 0xE9] \<noteq> sign_challenge ''abc'' 1000"
    by (rule notI, drule arg_cong [where f = length]) (simp add: length_sign_challenge)
  have n: "\<not> is_ascii [CHR 0xE9]" by (simp add: is_ascii_def)
  then have v: "verify_signature ''abc'' 1000 (JStr [CHR 0xE9]) = Inl TypeError"
    by (simp add: verify_signature_def)
  then have "api_verify challenges 1010 (Some (verify_payload ''abc'' 1000 [CHR 0xE9] [])) =
      Some (challenges, Uncaught TypeError)"
    by (simp add: api_verify_def verify_payload_def Let_def dict_get_def)
  with d v show ?thesis by simp
qed

subsection \<open>C10: points that are not a list\<close>

text \<open>
  C10. When the \<open>points\<close> field is present and is not a list, the request is never
  rejected as \<open>malformed_points\<close>; and when the rest of the request is valid (as in C7) it
  is answered with success and the token.
\<close>

theorem non_list_points_skipped:
  assumes "map_of data ''points'' = Some v" and "\<forall>l. v \<noteq> JList l"
  shows "(\<forall>st' c. api_verify challenges now (Some (JObj data)) \<noteq>
                    Some (st', Failure malformed_points c)) \<and>
         (dict_get data ''challenge_id'' JNull = JStr cid \<and> cid \<noteq> [] \<and>
          truthy (dict_get data ''timestamp'' JNull) \<and>
          py_int (dict_get data ''timestamp'' JNull) = Some (Inr ts) \<and>
          now - ts \<le> 120 \<and>
          dict_get data ''signature'' JNull = JStr (sign_challenge cid ts) \<and>
          dict_get data ''proof'' (JStr []) = JStr (b64encode (encode (''swiped-'' @ cid))) \<longrightarrow>
          api_verify challenges now (Some (JObj data)) =
            Some (challenges(cid := None), Success (final_token cid)))"
proof (intro conjI impI allI)
  from assms(1) have pts: "dict_get data ''points'' (JList []) = v"
    by (simp add: dict_get_def)
  fix st' c
  show "api_verify challenges now (Some (JObj data)) \<noteq> Some (st', Failure malformed_points c)"
    using pts assms(2) unfolding api_verify_def Let_def
    by (cases v) (auto split: option.splits sum.splits if_splits dest!: succeed_cases)
next
  from assms(1) have pts: "dict_get data ''points'' (JList []) = v"
    by (simp add: dict_get_def)
  assume valid: "dict_get data ''challenge_id'' JNull = JStr cid \<and> cid \<noteq> [] \<and>
      truthy (dict_get data ''timestamp'' JNull) \<and>
      py_int (dict_get data ''timestamp'' JNull) = Some (Inr ts) \<and>
      now - ts \<le> 120 \<and>
      dict_get data ''signature'' JNull = JStr (sign_challenge cid ts) \<and>
      dict_get data ''proof'' (JStr []) = JStr (b64encode (encode (''swiped-'' @ cid)))"
  then have "api_verify challenges now (Some (JObj data)) =
     (case dict_get data ''points'' (JList []) of
        JList (p # ps) \<Rightarrow>
          (case heuristics challenges (JStr cid) (p # ps) of
             None \<Rightarrow> None
           | Some (Some r) \<Rightarrow> Some (challenges, r)
           | Some None \<Rightarrow> Some (succeed challenges (JStr cid) cid))
      | _ \<Rightarrow> Some (succeed challenges (JStr cid) cid))"
    by (intro api_verify_valid) simp_all
  with pts assms(2) show "api_verify challenges now (Some (JObj data)) =
      Some (challenges(cid := None), Success (final_token cid))"
    by (cases v) (simp_all add: succeed_str)
qed

text \<open>A string in the \<open>points\<close> field.\<close>

theorem non_list_points_skipped_witness:
  "api_verify Map.empty 1010
     (Some (JObj [(''challenge_id'', JStr ''c1''), (''timestamp'', JInt 1000),
                  (''signature'', JStr (sign_challenge ''c1'' 1000)),
                  (''proof'', JStr ''c3dpcGVkLWMx''),
                  (''points'', JStr ''not a list'')])) =
   Some (Map.empty, Success (final_token ''c1''))"
  using non_list_points_skipped [of "[(''challenge_id'', JStr ''c1''), (''timestamp'', JInt 1000),
                  (''signature'', JStr (sign_challenge ''c1'' 1000)),
                  (''proof'', JStr ''c3dpcGVkLWMx''),
                  (''points'', JStr ''not a list'')]" "JStr ''not a list''" Map.empty 1010
                  "''c1''" 1000]
  by (simp add: dict_get_def proof_marker_c1)

end
